theory Spec2Isabelle
  imports Main "HOL-Library.Sublist"
begin

section \<open>Bagula Platform ingestion API (platform/app/main.py)\<close>

text \<open>
  The module is the HTTP front of the platform: a bearer-token check, the ingestion
  endpoint, two read endpoints and the start-up and shutdown hooks. The session store and
  the queue manager are objects of other modules; the module only calls their methods.
  Here their methods are parameters: each one takes the state of its own object and
  returns either an exception or a value, together with the state it leaves behind.
\<close>

subsection \<open>Data models\<close>

text \<open>
  \<open>AgentSession\<close>: the string and integer fields are spelled out; \<open>final_outcome\<close>,
  \<open>turns\<close>, \<open>metrics\<close> and \<open>metadata\<close> (dictionaries, nested models and floating-point
  numbers that no handler inspects) are carried as one opaque \<open>payload\<close>.
\<close>

record 'p agent_session =
  session_id :: string
  agent_name :: string
  user_id :: "string option"
  start_time :: int
  end_time :: "int option"
  initial_request :: string
  tags :: "string list option"
  payload :: 'p

record 'p ingest_request =
  sessions :: "'p agent_session list"
  timestamp :: int

record ingest_response =
  success :: bool
  sessions_received :: int
  message :: string

text \<open>\<open>HTTPException(status_code, detail)\<close>, the exception the handlers raise themselves.\<close>

datatype http_exception = HTTPException (status_code: nat) (detail: string)

text \<open>
  An exception object raised inside a collaborator. Module and framework tell three
  kinds of class apart: a subclass of \<open>Exception\<close> that is not an \<open>HTTPException\<close>; an
  \<open>HTTPException\<close> (itself a subclass of \<open>Exception\<close>), with its status and detail; and
  a subclass of \<open>BaseException\<close> outside \<open>Exception\<close> (\<open>asyncio.CancelledError\<close>,
  \<open>KeyboardInterrupt\<close>, \<open>SystemExit\<close>). Besides its class the object has its \<open>str(e)\<close>.
\<close>

datatype exception_class =
    Is_Exception
  | Is_HTTPException http_exception
  | Is_BaseException_only

datatype py_exception = PyException (py_class: exception_class) (py_str: string)

text \<open>\<open>isinstance(e, Exception)\<close>: what \<open>except Exception\<close> catches.\<close>

fun isinstance_Exception :: "py_exception \<Rightarrow> bool" where
  "isinstance_Exception (PyException Is_Exception _) = True"
| "isinstance_Exception (PyException (Is_HTTPException _) _) = True"
| "isinstance_Exception (PyException Is_BaseException_only _) = False"

subsection \<open>Authentication\<close>

text \<open>
  \<open>verify_api_key\<close>: \<open>authorization.startswith("Bearer ")\<close> is \<open>prefix\<close>,
  \<open>authorization[7:]\<close> is \<open>drop 7\<close>, and \<open>not api_key or len(api_key) < 10\<close> tests the
  empty string first and the length second. A header value is a sequence of bytes
  (latin-1 decoded), so \<open>len\<close> is \<open>length\<close>.
\<close>

definition verify_api_key :: "string \<Rightarrow> http_exception + string" where
  "verify_api_key authorization =
     (if \<not> prefix ''Bearer '' authorization
      then Inl (HTTPException 401 ''Invalid authorization header'')
      else let api_key = drop 7 authorization
           in if api_key = [] \<or> length api_key < 10
              then Inl (HTTPException 401 ''Invalid API key'')
              else Inr api_key)"

subsection \<open>Responses of a route\<close>

text \<open>
  What the framework (FastAPI, which is no part of the module) sends for a route: the
  returned value with status 200; the status and detail of an \<open>HTTPException\<close>; status
  422 when a declared request parameter is missing; status 500 when another instance of
  \<open>Exception\<close> leaves the handler. An exception outside \<open>Exception\<close> leaves the
  application as well, which then sends no response.
\<close>

datatype 'a response =
    Json_response 'a
  | Http_error nat string
  | Request_validation_error
  | Internal_server_error py_exception
  | No_response py_exception

fun response_status :: "'a response \<Rightarrow> nat option" where
  "response_status (Json_response _) = Some 200"
| "response_status (Http_error code _) = Some code"
| "response_status Request_validation_error = Some 422"
| "response_status (Internal_server_error _) = Some 500"
| "response_status (No_response _) = None"

text \<open>
  \<open>api_key: str = Depends(verify_api_key)\<close> with \<open>authorization: str = Header(...)\<close>:
  the header is a required parameter of the dependency. The request may lack it
  (\<open>None\<close>); then the dependency's body does not run and the request fails validation.
  Otherwise the dependency runs on the header's value.
\<close>

definition depends_verify_api_key :: "string option \<Rightarrow> 'a response + string" where
  "depends_verify_api_key header =
     (case header of
        None \<Rightarrow> Inl Request_validation_error
      | Some authorization \<Rightarrow>
          (case verify_api_key authorization of
             Inl (HTTPException code d) \<Rightarrow> Inl (Http_error code d)
           | Inr api_key \<Rightarrow> Inr api_key))"

subsection \<open>The collaborators and the record of their calls\<close>

text \<open>
  \<open>session_store = SessionStore()\<close> and \<open>queue_manager = QueueManager()\<close> are two
  objects; a method of one works on the state of that object. The state of the process
  is the state of the store, the state of the queue and, as a record of what the module
  did, the list of the calls it made so far: each call when it is issued, and again when
  it returns or raises.
\<close>

datatype 'p call =
    Store_sessions "'p agent_session list" string
  | Enqueue_session_analysis string
  | Get_session string
  | List_sessions string int int
  | Create_task_start_workers
  | Stop_workers
  | Close

datatype 'p event =
    Call "'p call"
  | Returned "'p call"
  | Raised "'p call" py_exception
  | Accept_request

record ('st, 'q, 'p) sys =
  store_state :: 'st
  queue_state :: 'q
  log :: "'p event list"

text \<open>
  Modelled from the spec: the classes \<open>SessionStore\<close> and \<open>QueueManager\<close> are imported
  from \<open>app.database\<close> and \<open>app.queue\<close>; their methods are the fields below, with the
  signatures of the spec's list of collaborator interfaces
  (\<open>store_sessions(sessions, api_key) -> None\<close>, \<open>get_session(id) -> Session|None\<close>,
  \<open>list_sessions(agent_name, limit, offset) -> list\<close>, \<open>close() -> None\<close>,
  \<open>enqueue_session_analysis(session_id) -> None\<close>, \<open>stop_workers() -> None\<close>).
  Every method may raise instead of returning. \<open>'r\<close> is the type of the objects that
  the store hands back as sessions, and \<open>py_bool\<close> is Python's \<open>bool(x)\<close> on such an
  object (false for an empty dictionary, true for a non-empty one), which the class of
  the object decides.
\<close>

record ('st, 'q, 'p, 'r) components =
  SessionStore_store_sessions ::
    "'p agent_session list \<Rightarrow> string \<Rightarrow> 'st \<Rightarrow> (py_exception + unit) \<times> 'st"
  SessionStore_get_session :: "string \<Rightarrow> 'st \<Rightarrow> (py_exception + 'r option) \<times> 'st"
  SessionStore_list_sessions ::
    "string \<Rightarrow> int \<Rightarrow> int \<Rightarrow> 'st \<Rightarrow> (py_exception + 'r list) \<times> 'st"
  SessionStore_close :: "'st \<Rightarrow> (py_exception + unit) \<times> 'st"
  QueueManager_enqueue_session_analysis :: "string \<Rightarrow> 'q \<Rightarrow> (py_exception + unit) \<times> 'q"
  QueueManager_stop_workers :: "'q \<Rightarrow> (py_exception + unit) \<times> 'q"
  py_bool :: "'r \<Rightarrow> bool"

text \<open>\<open>await session_store.m(...)\<close>: the call is recorded, runs on the store's state, and
  its outcome is recorded.\<close>

definition await_store ::
  "'p call \<Rightarrow> ('st \<Rightarrow> (py_exception + 'a) \<times> 'st) \<Rightarrow> ('st, 'q, 'p) sys
     \<Rightarrow> (py_exception + 'a) \<times> ('st, 'q, 'p) sys" where
  "await_store c m s =
     (case m (store_state s) of
        (Inl e, st') \<Rightarrow> (Inl e, s\<lparr>store_state := st', log := log s @ [Call c, Raised c e]\<rparr>)
      | (Inr v, st') \<Rightarrow> (Inr v, s\<lparr>store_state := st', log := log s @ [Call c, Returned c]\<rparr>))"

text \<open>\<open>await queue_manager.m(...)\<close>, likewise on the queue's state.\<close>

definition await_queue ::
  "'p call \<Rightarrow> ('q \<Rightarrow> (py_exception + 'a) \<times> 'q) \<Rightarrow> ('st, 'q, 'p) sys
     \<Rightarrow> (py_exception + 'a) \<times> ('st, 'q, 'p) sys" where
  "await_queue c m s =
     (case m (queue_state s) of
        (Inl e, q') \<Rightarrow> (Inl e, s\<lparr>queue_state := q', log := log s @ [Call c, Raised c e]\<rparr>)
      | (Inr v, q') \<Rightarrow> (Inr v, s\<lparr>queue_state := q', log := log s @ [Call c, Returned c]\<rparr>))"

subsection \<open>Formatting\<close>

text \<open>\<open>f"{len(sessions)}"\<close>: the decimal digits of a natural number.\<close>

definition digit_char :: "nat \<Rightarrow> char" where
  "digit_char d = ''0123456789'' ! d"

function str_nat :: "nat \<Rightarrow> string" where
  "str_nat n = (if n < 10 then [digit_char n] else str_nat (n div 10) @ [digit_char (n mod 10)])"
  by pat_completeness auto
termination
  by (relation "measure id") auto

declare str_nat.simps [simp del]

subsection \<open>Endpoints\<close>

text \<open>What a handler does: it returns, raises an \<open>HTTPException\<close> of its own, or lets
  an exception of a collaborator pass. \<open>respond\<close> is the framework's answer to each.\<close>

datatype 'a outcome = Return 'a | Raise_http http_exception | Raise py_exception

fun respond :: "'a outcome \<Rightarrow> 'a response" where
  "respond (Return v) = Json_response v"
| "respond (Raise_http (HTTPException code d)) = Http_error code d"
| "respond (Raise (PyException Is_Exception msg)) =
     Internal_server_error (PyException Is_Exception msg)"
| "respond (Raise (PyException (Is_HTTPException (HTTPException code d)) msg)) =
     Http_error code d"
| "respond (Raise (PyException Is_BaseException_only msg)) =
     No_response (PyException Is_BaseException_only msg)"

text \<open>\<open>for session in sessions: await queue_manager.enqueue_session_analysis(session.session_id)\<close>.
  An exception ends the loop.\<close>

fun enqueue_loop ::
  "('st, 'q, 'p, 'r) components \<Rightarrow> 'p agent_session list \<Rightarrow> ('st, 'q, 'p) sys
     \<Rightarrow> (py_exception + unit) \<times> ('st, 'q, 'p) sys" where
  "enqueue_loop C [] s = (Inr (), s)"
| "enqueue_loop C (session # rest) s =
     (case await_queue (Enqueue_session_analysis (session_id session))
             (QueueManager_enqueue_session_analysis C (session_id session)) s of
        (Inl e, s') \<Rightarrow> (Inl e, s')
      | (Inr _, s') \<Rightarrow> enqueue_loop C rest s')"

text \<open>The \<open>try\<close> block of \<open>ingest_sessions\<close>.\<close>

definition ingest_sessions_try ::
  "('st, 'q, 'p, 'r) components \<Rightarrow> 'p ingest_request \<Rightarrow> string \<Rightarrow> ('st, 'q, 'p) sys
     \<Rightarrow> (py_exception + ingest_response) \<times> ('st, 'q, 'p) sys" where
  "ingest_sessions_try C request api_key s =
     (let batch = sessions request in
      case await_store (Store_sessions batch api_key)
             (SessionStore_store_sessions C batch api_key) s of
        (Inl e, s1) \<Rightarrow> (Inl e, s1)
      | (Inr _, s1) \<Rightarrow>
          (case enqueue_loop C batch s1 of
             (Inl e, s2) \<Rightarrow> (Inl e, s2)
           | (Inr _, s2) \<Rightarrow>
               (Inr \<lparr>success = True,
                     sessions_received = int (length batch),
                     message = ''Successfully received '' @ str_nat (length batch)
                                 @ '' session(s)''\<rparr>, s2)))"

text \<open>\<open>ingest_sessions\<close>: the \<open>try\<close> block, and \<open>except Exception as e: raise
  HTTPException(status_code=500, detail=str(e))\<close>. The clause catches the instances of
  \<open>Exception\<close>; any other exception passes.\<close>

definition ingest_sessions ::
  "('st, 'q, 'p, 'r) components \<Rightarrow> 'p ingest_request \<Rightarrow> string \<Rightarrow> ('st, 'q, 'p) sys
     \<Rightarrow> ingest_response outcome \<times> ('st, 'q, 'p) sys" where
  "ingest_sessions C request api_key s =
     (case ingest_sessions_try C request api_key s of
        (Inl e, s') \<Rightarrow>
          if isinstance_Exception e then (Raise_http (HTTPException 500 (py_str e)), s')
          else (Raise e, s')
      | (Inr r, s') \<Rightarrow> (Return r, s'))"

text \<open>
  \<open>not session\<close>: Python's truth test. What the store returned is \<open>None\<close>, which is
  false, or an object, whose truth value is its \<open>bool\<close>.
\<close>

definition py_not :: "('st, 'q, 'p, 'r) components \<Rightarrow> 'r option \<Rightarrow> bool" where
  "py_not C session = (case session of None \<Rightarrow> True | Some x \<Rightarrow> \<not> py_bool C x)"

text \<open>\<open>get_session\<close> has no \<open>try\<close>: an exception of the store passes through.\<close>

definition get_session ::
  "('st, 'q, 'p, 'r) components \<Rightarrow> string \<Rightarrow> string \<Rightarrow> ('st, 'q, 'p) sys
     \<Rightarrow> 'r option outcome \<times> ('st, 'q, 'p) sys" where
  "get_session C sid api_key s =
     (case await_store (Get_session sid) (SessionStore_get_session C sid) s of
        (Inl e, s') \<Rightarrow> (Raise e, s')
      | (Inr session, s') \<Rightarrow>
          if py_not C session then (Raise_http (HTTPException 404 ''Session not found''), s')
          else (Return session, s'))"

text \<open>The dictionary that \<open>list_agent_sessions\<close> returns, key by key.\<close>

record 'r agent_sessions_page =
  page_agent_name :: string
  page_sessions :: "'r list"
  page_count :: int
  page_limit :: int
  page_offset :: int

definition list_agent_sessions ::
  "('st, 'q, 'p, 'r) components \<Rightarrow> string \<Rightarrow> int \<Rightarrow> int \<Rightarrow> string \<Rightarrow> ('st, 'q, 'p) sys
     \<Rightarrow> 'r agent_sessions_page outcome \<times> ('st, 'q, 'p) sys" where
  "list_agent_sessions C name limit offset api_key s =
     (case await_store (List_sessions name limit offset)
             (SessionStore_list_sessions C name limit offset) s of
        (Inl e, s') \<Rightarrow> (Raise e, s')
      | (Inr found, s') \<Rightarrow>
          (Return \<lparr>page_agent_name = name, page_sessions = found,
                   page_count = int (length found),
                   page_limit = limit, page_offset = offset\<rparr>, s'))"

subsection \<open>Routes\<close>

text \<open>
  A route resolves its dependency first and calls the handler with the key the
  dependency returned. The body of a request is taken as already parsed into the
  handler's parameter types.
\<close>

definition post_v1_sessions_ingest ::
  "('st, 'q, 'p, 'r) components \<Rightarrow> string option \<Rightarrow> 'p ingest_request \<Rightarrow> ('st, 'q, 'p) sys
     \<Rightarrow> ingest_response response \<times> ('st, 'q, 'p) sys" where
  "post_v1_sessions_ingest C header request s =
     (case depends_verify_api_key header of
        Inl r \<Rightarrow> (r, s)
      | Inr api_key \<Rightarrow>
          (case ingest_sessions C request api_key s of (out, s') \<Rightarrow> (respond out, s')))"

definition get_v1_sessions ::
  "('st, 'q, 'p, 'r) components \<Rightarrow> string option \<Rightarrow> string \<Rightarrow> ('st, 'q, 'p) sys
     \<Rightarrow> 'r option response \<times> ('st, 'q, 'p) sys" where
  "get_v1_sessions C header sid s =
     (case depends_verify_api_key header of
        Inl r \<Rightarrow> (r, s)
      | Inr api_key \<Rightarrow>
          (case get_session C sid api_key s of (out, s') \<Rightarrow> (respond out, s')))"

text \<open>\<open>limit: int = 100, offset: int = 0\<close>: a query parameter that the request omits
  takes its default.\<close>

definition get_v1_agents_sessions ::
  "('st, 'q, 'p, 'r) components \<Rightarrow> string option \<Rightarrow> string \<Rightarrow> int option \<Rightarrow> int option
     \<Rightarrow> ('st, 'q, 'p) sys \<Rightarrow> 'r agent_sessions_page response \<times> ('st, 'q, 'p) sys" where
  "get_v1_agents_sessions C header name limit_param offset_param s =
     (let limit = (case limit_param of None \<Rightarrow> 100 | Some l \<Rightarrow> l);
          offset = (case offset_param of None \<Rightarrow> 0 | Some off \<Rightarrow> off)
      in case depends_verify_api_key header of
           Inl r \<Rightarrow> (r, s)
         | Inr api_key \<Rightarrow>
             (case list_agent_sessions C name limit offset api_key s of
                (out, s') \<Rightarrow> (respond out, s')))"

subsection \<open>Background tasks\<close>

text \<open>\<open>startup_event\<close>: \<open>asyncio.create_task(queue_manager.start_workers())\<close> hands the
  worker loop to the event loop and returns at once. The two \<open>print\<close> calls of each
  hook write to standard output only and are left out.\<close>

definition startup_event :: "('st, 'q, 'p) sys \<Rightarrow> ('st, 'q, 'p) sys" where
  "startup_event s =
     s\<lparr>log := log s @ [Call Create_task_start_workers, Returned Create_task_start_workers]\<rparr>"

text \<open>\<open>shutdown_event\<close>: \<open>await queue_manager.stop_workers()\<close>, then
  \<open>await session_store.close()\<close>; an exception of the first ends the hook.\<close>

definition shutdown_event ::
  "('st, 'q, 'p, 'r) components \<Rightarrow> ('st, 'q, 'p) sys
     \<Rightarrow> (py_exception + unit) \<times> ('st, 'q, 'p) sys" where
  "shutdown_event C s =
     (case await_queue Stop_workers (QueueManager_stop_workers C) s of
        (Inl e, s1) \<Rightarrow> (Inl e, s1)
      | (Inr _, s1) \<Rightarrow> await_store Close (SessionStore_close C) s1)"

subsection \<open>The life of the process\<close>

text \<open>
  The module registers its two hooks with \<open>@app.on_event("startup")\<close> on
  \<open>startup_event\<close> and \<open>@app.on_event("shutdown")\<close> on \<open>shutdown_event\<close>: \<open>on_event\<close> is
  this table, in the order of the source.
\<close>

datatype hook = Startup_event | Shutdown_event

definition on_event :: "(string \<times> hook) list" where
  "on_event = [(''startup'', Startup_event), (''shutdown'', Shutdown_event)]"

fun run_hook ::
  "('st, 'q, 'p, 'r) components \<Rightarrow> hook \<Rightarrow> ('st, 'q, 'p) sys \<Rightarrow> ('st, 'q, 'p) sys" where
  "run_hook C Startup_event s = startup_event s"
| "run_hook C Shutdown_event s = snd (shutdown_event C s)"

text \<open>The hooks registered for an event, run in the order of their registration.\<close>

definition run_handlers ::
  "('st, 'q, 'p, 'r) components \<Rightarrow> string \<Rightarrow> ('st, 'q, 'p) sys \<Rightarrow> ('st, 'q, 'p) sys" where
  "run_handlers C event s =
     fold (run_hook C) (map snd (filter (\<lambda>(name, h). name = event) on_event)) s"

text \<open>
  The framework's side of the registration (its lifespan protocol, which is no part of
  the module): the application runs the hooks of the event \<open>startup\<close>, then serves
  requests, then runs the hooks of the event \<open>shutdown\<close>. A request is marked in the
  record when the application accepts it, before its route runs. The requests are those
  of the three routes above; the other routes of the module call the analyzer and the
  counters of the store and the queue only.
\<close>

datatype phase = Starting | Serving | Stopped

datatype 'p request =
    Post_ingest "string option" "'p ingest_request"
  | Get_session_by_id "string option" string
  | Get_agent_sessions "string option" string "int option" "int option"

fun serve ::
  "('st, 'q, 'p, 'r) components \<Rightarrow> 'p request \<Rightarrow> ('st, 'q, 'p) sys \<Rightarrow> ('st, 'q, 'p) sys" where
  "serve C (Post_ingest header request) s = snd (post_v1_sessions_ingest C header request s)"
| "serve C (Get_session_by_id header sid) s = snd (get_v1_sessions C header sid s)"
| "serve C (Get_agent_sessions header name limit_param offset_param) s =
     snd (get_v1_agents_sessions C header name limit_param offset_param s)"

inductive process_step ::
  "('st, 'q, 'p, 'r) components \<Rightarrow> phase \<times> ('st, 'q, 'p) sys \<Rightarrow> phase \<times> ('st, 'q, 'p) sys
     \<Rightarrow> bool" for C where
  startup: "process_step C (Starting, s) (Serving, run_handlers C ''startup'' s)"
| request: "process_step C (Serving, s) (Serving, serve C req (s\<lparr>log := log s @ [Accept_request]\<rparr>))"
| shutdown: "process_step C (Serving, s) (Stopped, run_handlers C ''shutdown'' s)"

inductive reachable ::
  "('st, 'q, 'p, 'r) components \<Rightarrow> phase \<times> ('st, 'q, 'p) sys \<Rightarrow> bool" for C where
  init: "log s = [] \<Longrightarrow> reachable C (Starting, s)"
| step: "reachable C x \<Longrightarrow> process_step C x y \<Longrightarrow> reachable C y"

subsection \<open>Reading the record of calls\<close>

text \<open>\<open>precedes a b xs\<close>: in \<open>xs\<close> no \<open>b\<close> occurs until an \<open>a\<close> has occurred.\<close>

fun precedes :: "('a \<Rightarrow> bool) \<Rightarrow> ('a \<Rightarrow> bool) \<Rightarrow> 'a list \<Rightarrow> bool" where
  "precedes a b [] = True"
| "precedes a b (x # xs) = (if b x then False else if a x then True else precedes a b xs)"

text \<open>The record of calls that were issued one after the other and all returned.\<close>

definition completed :: "'p call list \<Rightarrow> 'p event list" where
  "completed cs = concat (map (\<lambda>c. [Call c, Returned c]) cs)"

fun is_store_call :: "'p event \<Rightarrow> bool" where
  "is_store_call (Call (Store_sessions _ _)) = True"
| "is_store_call _ = False"

fun is_enqueue_call :: "'p event \<Rightarrow> bool" where
  "is_enqueue_call (Call (Enqueue_session_analysis _)) = True"
| "is_enqueue_call _ = False"

text \<open>The state of the queue after \<open>enqueue_session_analysis\<close> has run for each of the
  ids in turn, when none of these calls raises.\<close>

fun enqueued ::
  "('st, 'q, 'p, 'r) components \<Rightarrow> string list \<Rightarrow> 'q \<Rightarrow> 'q option" where
  "enqueued C [] q = Some q"
| "enqueued C (i # ids) q =
     (case QueueManager_enqueue_session_analysis C i q of
        (Inl e, q') \<Rightarrow> None
      | (Inr _, q') \<Rightarrow> enqueued C ids q')"

subsection \<open>Collaborators in memory\<close>

text \<open>
  A store and a queue that live in memory, to run the handlers on concrete requests.
  The store keeps the sessions it was given, in order, and hands them back as they
  are (objects, which are true); the queue keeps the ids. The store raises on every
  \<open>store_sessions\<close> when \<open>store_down\<close> is set, and the queue raises on the ids in
  \<open>rejected\<close>. Closing the store and stopping the workers drops what they hold.
\<close>

definition memory_components ::
  "bool \<Rightarrow> string list
     \<Rightarrow> (unit agent_session list, string list, unit, unit agent_session) components" where
  "memory_components store_down rejected =
     \<lparr>SessionStore_store_sessions = (\<lambda>batch api_key st.
          if store_down then (Inl (PyException Is_Exception ''connection refused''), st)
          else (Inr (), st @ batch)),
      SessionStore_get_session = (\<lambda>sid st. (Inr (find (\<lambda>x. session_id x = sid) st), st)),
      SessionStore_list_sessions = (\<lambda>name limit offset st.
          (Inr (take (nat limit) (drop (nat offset) (filter (\<lambda>x. agent_name x = name) st))), st)),
      SessionStore_close = (\<lambda>st. (Inr (), [])),
      QueueManager_enqueue_session_analysis = (\<lambda>sid q.
          if sid \<in> set rejected then (Inl (PyException Is_Exception ''queue full''), q)
          else (Inr (), q @ [sid])),
      QueueManager_stop_workers = (\<lambda>q. (Inr (), [])),
      py_bool = (\<lambda>x. True)\<rparr>"

text \<open>The same, with a store whose \<open>store_sessions\<close> is cancelled while it waits: it
  raises \<open>asyncio.CancelledError\<close>, whose \<open>str\<close> is empty.\<close>

definition cancelled_components ::
  "(unit agent_session list, string list, unit, unit agent_session) components" where
  "cancelled_components =
     (memory_components False [])
       \<lparr>SessionStore_store_sessions :=
          (\<lambda>batch api_key st. (Inl (PyException Is_BaseException_only []), st))\<rparr>"

text \<open>A store that keeps one dictionary (a list of key and value pairs) per session id
  and hands the dictionary back; an empty dictionary is false.\<close>

definition dict_components ::
  "((string \<times> (string \<times> string) list) list, string list, unit, (string \<times> string) list)
     components" where
  "dict_components =
     \<lparr>SessionStore_store_sessions = (\<lambda>batch api_key st.
          (Inr (), st @ map (\<lambda>x. (session_id x, [(''agent_name'', agent_name x)])) batch)),
      SessionStore_get_session = (\<lambda>sid st. (Inr (map_of st sid), st)),
      SessionStore_list_sessions = (\<lambda>name limit offset st.
          (Inr (take (nat limit) (drop (nat offset)
             (filter (\<lambda>d. map_of d ''agent_name'' = Some name) (map snd st)))), st)),
      SessionStore_close = (\<lambda>st. (Inr (), [])),
      QueueManager_enqueue_session_analysis = (\<lambda>sid q. (Inr (), q @ [sid])),
      QueueManager_stop_workers = (\<lambda>q. (Inr (), [])),
      py_bool = (\<lambda>d. d \<noteq> [])\<rparr>"

definition a_session :: "string \<Rightarrow> string \<Rightarrow> unit agent_session" where
  "a_session sid name =
     \<lparr>session_id = sid, agent_name = name, user_id = None, start_time = 0,
      end_time = None, initial_request = ''hello'', tags = None, payload = ()\<rparr>"

definition fresh :: "(unit agent_session list, string list, unit) sys" where
  "fresh = \<lparr>store_state = [], queue_state = [], log = []\<rparr>"

section \<open>Properties\<close>

subsection \<open>Auxiliary facts about the handlers\<close>

lemma depends_ok: "verify_api_key a = Inr key \<Longrightarrow> depends_verify_api_key (Some a) = Inr key"
  by (simp add: depends_verify_api_key_def)

lemma respond_caught:
  "isinstance_Exception e \<Longrightarrow>
   respond (Raise_http (HTTPException 500 (py_str e))) = Http_error 500 (py_str e)"
  by simp

lemma respond_uncaught: "\<not> isinstance_Exception e \<Longrightarrow> respond (Raise e) = No_response e"
  by (cases e rule: isinstance_Exception.cases) simp_all

lemma ingest_sessions_raises:
  "ingest_sessions_try C request key s = (Inl e, s') \<Longrightarrow>
   (case ingest_sessions C request key s of (out, t) \<Rightarrow> (respond out, t))
     = (if isinstance_Exception e then Http_error 500 (py_str e) else No_response e, s')"
  by (simp add: ingest_sessions_def respond_uncaught)

lemma enqueue_loop_ok:
  "enqueued C (map session_id batch) (queue_state s) = Some q \<Longrightarrow>
   enqueue_loop C batch s =
     (Inr (), s\<lparr>queue_state := q,
               log := log s @ completed (map (\<lambda>x. Enqueue_session_analysis (session_id x)) batch)\<rparr>)"
proof (induction batch arbitrary: s)
  case Nil
  then show ?case by (simp add: completed_def)
next
  case (Cons x xs)
  then show ?case
    by (auto simp: await_queue_def completed_def split: prod.splits sum.splits)
qed

lemma enqueue_loop_raises:
  "k < length batch \<Longrightarrow>
   enqueued C (map session_id (take k batch)) (queue_state s) = Some q \<Longrightarrow>
   QueueManager_enqueue_session_analysis C (session_id (batch ! k)) q = (Inl e, q') \<Longrightarrow>
   enqueue_loop C batch s =
     (Inl e, s\<lparr>queue_state := q',
               log := log s
                 @ completed (map (\<lambda>x. Enqueue_session_analysis (session_id x)) (take k batch))
                 @ [Call (Enqueue_session_analysis (session_id (batch ! k))),
                    Raised (Enqueue_session_analysis (session_id (batch ! k))) e]\<rparr>)"
proof (induction batch arbitrary: k s)
  case Nil
  then show ?case by simp
next
  case (Cons x xs)
  show ?case
  proof (cases k)
    case 0
    with Cons.prems show ?thesis
      by (simp add: await_queue_def completed_def)
  next
    case (Suc j)
    with Cons.prems obtain q1 where
      q1: "QueueManager_enqueue_session_analysis C (session_id x) (queue_state s) = (Inr (), q1)"
      and rest: "enqueued C (map session_id (take j xs)) q1 = Some q"
      by (auto split: prod.splits sum.splits)
    let ?s1 = "s\<lparr>queue_state := q1,
                 log := log s @ [Call (Enqueue_session_analysis (session_id x)),
                                 Returned (Enqueue_session_analysis (session_id x))]\<rparr>"
    from Cons.prems Suc have "j < length xs" by simp
    moreover from rest have "enqueued C (map session_id (take j xs)) (queue_state ?s1) = Some q"
      by simp
    moreover from Cons.prems Suc
    have "QueueManager_enqueue_session_analysis C (session_id (xs ! j)) q = (Inl e, q')"
      by simp
    ultimately have "enqueue_loop C xs ?s1 =
      (Inl e, ?s1\<lparr>queue_state := q',
               log := log ?s1
                 @ completed (map (\<lambda>x. Enqueue_session_analysis (session_id x)) (take j xs))
                 @ [Call (Enqueue_session_analysis (session_id (xs ! j))),
                    Raised (Enqueue_session_analysis (session_id (xs ! j))) e]\<rparr>)"
      by (rule Cons.IH)
    with q1 Suc show ?thesis
      by (simp add: await_queue_def completed_def)
  qed
qed


lemma try_store_raises:
  "SessionStore_store_sessions C (sessions request) key (store_state s) = (Inl e, st') \<Longrightarrow>
   ingest_sessions_try C request key s =
     (Inl e, s\<lparr>store_state := st',
               log := log s @ [Call (Store_sessions (sessions request) key),
                               Raised (Store_sessions (sessions request) key) e]\<rparr>)"
  by (simp add: ingest_sessions_try_def await_store_def Let_def)

lemma try_enqueue_raises:
  assumes "SessionStore_store_sessions C (sessions request) key (store_state s) = (Inr (), st')"
    and "k < length (sessions request)"
    and "enqueued C (map session_id (take k (sessions request))) (queue_state s) = Some q"
    and "QueueManager_enqueue_session_analysis C (session_id (sessions request ! k)) q
           = (Inl e, q')"
  shows "ingest_sessions_try C request key s =
     (Inl e, \<lparr>store_state = st', queue_state = q',
              log = log s
                @ completed (Store_sessions (sessions request) key
                    # map (\<lambda>x. Enqueue_session_analysis (session_id x))
                        (take k (sessions request)))
                @ [Call (Enqueue_session_analysis (session_id (sessions request ! k))),
                   Raised (Enqueue_session_analysis (session_id (sessions request ! k))) e]\<rparr>)"
proof -
  let ?s1 = "s\<lparr>store_state := st',
               log := log s @ [Call (Store_sessions (sessions request) key),
                               Returned (Store_sessions (sessions request) key)]\<rparr>"
  from assms(3) have "enqueued C (map session_id (take k (sessions request))) (queue_state ?s1)
      = Some q"
    by simp
  from enqueue_loop_raises [OF assms(2) this assms(4)] assms(1) show ?thesis
    by (simp add: ingest_sessions_try_def await_store_def completed_def Let_def)
qed

lemma try_returns:
  assumes "SessionStore_store_sessions C (sessions request) key (store_state s) = (Inr (), st')"
    and "enqueued C (map session_id (sessions request)) (queue_state s) = Some q"
  shows "ingest_sessions_try C request key s =
     (Inr \<lparr>success = True, sessions_received = int (length (sessions request)),
           message = ''Successfully received '' @ str_nat (length (sessions request))
                       @ '' session(s)''\<rparr>,
      \<lparr>store_state = st', queue_state = q,
       log = log s
         @ completed (Store_sessions (sessions request) key
             # map (\<lambda>x. Enqueue_session_analysis (session_id x)) (sessions request))\<rparr>)"
proof -
  let ?s1 = "s\<lparr>store_state := st',
               log := log s @ [Call (Store_sessions (sessions request) key),
                               Returned (Store_sessions (sessions request) key)]\<rparr>"
  from assms(2) have "enqueued C (map session_id (sessions request)) (queue_state ?s1) = Some q"
    by simp
  from enqueue_loop_ok [OF this] assms(1) show ?thesis
    by (simp add: ingest_sessions_try_def await_store_def completed_def Let_def)
qed

lemma str_nat_digit: "n < 10 \<Longrightarrow> str_nat n = [digit_char n]"
  by (simp add: str_nat.simps)

lemma str_nat_0: "str_nat 0 = ''0''"
  by (simp add: str_nat_digit digit_char_def)

lemma str_nat_two: "str_nat (Suc (Suc 0)) = ''2''"
  by (simp add: str_nat_digit digit_char_def)

subsection \<open>Authentication\<close>

text \<open>
  Claim C3. For every value of the Authorization header, \<open>verify_api_key\<close> raises an
  \<open>HTTPException\<close> with status 401 exactly when the value does not start with
  \<open>"Bearer "\<close> or what follows the prefix is shorter than 10 characters; it raises
  nothing else; and every token of at least 10 characters is accepted and returned as
  the key, whatever it contains. The function takes the header's value only: it has no
  access to any registry.
\<close>

theorem verify_api_key_rejects_iff:
  "((\<exists>d. verify_api_key authorization = Inl (HTTPException 401 d)) \<longleftrightarrow>
      (\<not> prefix ''Bearer '' authorization \<or> length (drop 7 authorization) < 10))
   \<and> ((\<exists>x. verify_api_key authorization = Inl x) \<longleftrightarrow>
      (\<exists>d. verify_api_key authorization = Inl (HTTPException 401 d)))
   \<and> (10 \<le> length token \<longrightarrow> verify_api_key (''Bearer '' @ token) = Inr token)"
  by (auto simp: verify_api_key_def Let_def)

theorem verify_api_key_rejects_iff_witness:
  "(\<exists>d. verify_api_key ''Bearer short'' = Inl (HTTPException 401 d))
   \<and> verify_api_key ''Bearer sk_live_0123456789'' = Inr ''sk_live_0123456789''"
  using verify_api_key_rejects_iff [of "''Bearer short''" "''sk_live_0123456789''"]
  by simp

text \<open>
  A request to the ingestion route that carries no Authorization header is not answered
  with status 401: the header is a required parameter of \<open>verify_api_key\<close>, which is
  therefore not called, and the framework answers a request that lacks a required
  parameter with status 422.
\<close>

theorem ingest_without_header_is_401_counterexample:
  "response_status (fst (post_v1_sessions_ingest (memory_components False []) None
      \<lparr>sessions = [a_session ''s1'' ''bot''], timestamp = 0\<rparr> fresh)) \<noteq> Some 401"
  by (simp add: post_v1_sessions_ingest_def depends_verify_api_key_def)

text \<open>
  Claim C2, amended. For every request to \<open>/v1/sessions/ingest\<close> that carries no
  Authorization header, the response status is 422 (the framework's request validation
  error for the required header), and the handler does not run: the state of the store,
  the state of the queue and the record of calls are what they were.
\<close>

theorem ingest_without_header:
  "post_v1_sessions_ingest C None request s = (Request_validation_error, s)
   \<and> response_status (fst (post_v1_sessions_ingest C None request s)) = Some 422
   \<and> snd (post_v1_sessions_ingest C None request s) = s"
  by (simp add: post_v1_sessions_ingest_def depends_verify_api_key_def)

subsection \<open>Ingestion\<close>

text \<open>
  Claim C10. When \<open>store_sessions\<close> raises, the handler issues no
  \<open>enqueue_session_analysis\<close> call at all: the record of calls grows by the failed
  store call only, and the state of the queue is what it was. The request is answered
  with status 500 and \<open>str(e)\<close> when the exception is an instance of \<open>Exception\<close>; any
  other exception leaves the handler, again without an enqueue call.
\<close>

theorem ingest_store_raises_no_enqueue:
  assumes "verify_api_key authorization = Inr api_key"
    and "SessionStore_store_sessions C (sessions request) api_key (store_state s) = (Inl e, st')"
  shows "post_v1_sessions_ingest C (Some authorization) request s =
           (if isinstance_Exception e then Http_error 500 (py_str e) else No_response e,
            s\<lparr>store_state := st',
              log := log s @ [Call (Store_sessions (sessions request) api_key),
                              Raised (Store_sessions (sessions request) api_key) e]\<rparr>)
    \<and> queue_state (snd (post_v1_sessions_ingest C (Some authorization) request s))
        = queue_state s
    \<and> filter is_enqueue_call
        (drop (length (log s))
           (log (snd (post_v1_sessions_ingest C (Some authorization) request s)))) = []"
  using assms(1) ingest_sessions_raises [OF try_store_raises [OF assms(2)]]
  by (simp add: post_v1_sessions_ingest_def depends_ok)

theorem ingest_store_raises_no_enqueue_witness:
  "post_v1_sessions_ingest (memory_components True []) (Some ''Bearer sk_live_0123456789'')
      \<lparr>sessions = [a_session ''s1'' ''bot'', a_session ''s2'' ''bot''], timestamp = 7\<rparr> fresh
    = (Http_error 500 ''connection refused'',
       \<lparr>store_state = [], queue_state = [],
        log = [Call (Store_sessions [a_session ''s1'' ''bot'', a_session ''s2'' ''bot'']
                       ''sk_live_0123456789''),
               Raised (Store_sessions [a_session ''s1'' ''bot'', a_session ''s2'' ''bot'']
                       ''sk_live_0123456789'') (PyException Is_Exception ''connection refused'')]\<rparr>)"
  using ingest_store_raises_no_enqueue [of "''Bearer sk_live_0123456789''" "''sk_live_0123456789''"
      "memory_components True []"
      "\<lparr>sessions = [a_session ''s1'' ''bot'', a_session ''s2'' ''bot''], timestamp = 7\<rparr>"
      fresh "PyException Is_Exception ''connection refused''" "[]"]
  by (simp add: verify_api_key_def memory_components_def fresh_def)

text \<open>
  An exception of the store need not end in a response with status 500: when the store's
  call is cancelled, the \<open>asyncio.CancelledError\<close> it raises is no instance of
  \<open>Exception\<close>, the \<open>except\<close> clause does not catch it, and it leaves the handler.
\<close>

theorem ingest_exception_is_500_counterexample:
  "fst (post_v1_sessions_ingest cancelled_components (Some ''Bearer sk_live_0123456789'')
      \<lparr>sessions = [a_session ''s1'' ''bot''], timestamp = 7\<rparr> fresh)
     = No_response (PyException Is_BaseException_only [])
   \<and> response_status (fst (post_v1_sessions_ingest cancelled_components
      (Some ''Bearer sk_live_0123456789'')
      \<lparr>sessions = [a_session ''s1'' ''bot''], timestamp = 7\<rparr> fresh)) \<noteq> Some 500"
  by (simp add: post_v1_sessions_ingest_def depends_verify_api_key_def verify_api_key_def
      ingest_sessions_def ingest_sessions_try_def await_store_def cancelled_components_def
      memory_components_def fresh_def Let_def)

text \<open>
  Claim C4, amended. For every authenticated POST to \<open>/v1/sessions/ingest\<close>: if the
  store's call raises \<open>e\<close>, or the store's call returns and, after the enqueue calls for
  the sessions before some position have returned, the enqueue call at that position
  raises \<open>e\<close>, then, when \<open>e\<close> is an instance of \<open>Exception\<close>, the response has status
  500 and its detail is \<open>str(e)\<close>; when \<open>e\<close> is not an instance of \<open>Exception\<close>, it
  is not caught and leaves the handler.
\<close>

theorem ingest_exception_is_500:
  assumes "verify_api_key authorization = Inr api_key"
    and "SessionStore_store_sessions C (sessions request) api_key (store_state s) = (Inl e, st')
       \<or> (\<exists>st' k q q'.
            SessionStore_store_sessions C (sessions request) api_key (store_state s)
              = (Inr (), st')
          \<and> k < length (sessions request)
          \<and> enqueued C (map session_id (take k (sessions request))) (queue_state s) = Some q
          \<and> QueueManager_enqueue_session_analysis C (session_id (sessions request ! k)) q
              = (Inl e, q'))"
  shows "(isinstance_Exception e \<longrightarrow>
            fst (post_v1_sessions_ingest C (Some authorization) request s)
              = Http_error 500 (py_str e)
          \<and> response_status (fst (post_v1_sessions_ingest C (Some authorization) request s))
              = Some 500)
    \<and> (\<not> isinstance_Exception e \<longrightarrow>
            fst (ingest_sessions C request api_key s) = Raise e
          \<and> fst (post_v1_sessions_ingest C (Some authorization) request s) = No_response e)"
proof -
  from assms(2) obtain s' where raised: "ingest_sessions_try C request api_key s = (Inl e, s')"
    by (auto simp: try_store_raises try_enqueue_raises)
  from ingest_sessions_raises [OF raised] assms(1)
  have "fst (post_v1_sessions_ingest C (Some authorization) request s)
      = (if isinstance_Exception e then Http_error 500 (py_str e) else No_response e)"
    by (simp add: post_v1_sessions_ingest_def depends_ok)
  moreover from raised
  have "\<not> isinstance_Exception e \<longrightarrow> fst (ingest_sessions C request api_key s) = Raise e"
    by (simp add: ingest_sessions_def)
  ultimately show ?thesis by simp
qed

theorem ingest_exception_is_500_witness:
  "fst (post_v1_sessions_ingest (memory_components False [''s2''])
      (Some ''Bearer sk_live_0123456789'')
      \<lparr>sessions = [a_session ''s1'' ''bot'', a_session ''s2'' ''bot''], timestamp = 7\<rparr> fresh)
    = Http_error 500 ''queue full''"
proof -
  let ?C = "memory_components False [''s2'']"
  let ?r = "\<lparr>sessions = [a_session ''s1'' ''bot'', a_session ''s2'' ''bot''], timestamp = 7\<rparr>"
  have key: "verify_api_key ''Bearer sk_live_0123456789'' = Inr ''sk_live_0123456789''"
    by (simp add: verify_api_key_def)
  have "SessionStore_store_sessions ?C (sessions ?r) ''sk_live_0123456789'' (store_state fresh)
          = (Inr (), [a_session ''s1'' ''bot'', a_session ''s2'' ''bot''])
      \<and> 1 < length (sessions ?r)
      \<and> enqueued ?C (map session_id (take 1 (sessions ?r))) (queue_state fresh) = Some [''s1'']
      \<and> QueueManager_enqueue_session_analysis ?C (session_id (sessions ?r ! 1)) [''s1'']
          = (Inl (PyException Is_Exception ''queue full''), [''s1''])"
    by (simp add: memory_components_def fresh_def a_session_def)
  then have "SessionStore_store_sessions ?C (sessions ?r) ''sk_live_0123456789''
          (store_state fresh) = (Inl (PyException Is_Exception ''queue full''), [])
       \<or> (\<exists>st' k q q'.
            SessionStore_store_sessions ?C (sessions ?r) ''sk_live_0123456789''
              (store_state fresh) = (Inr (), st')
          \<and> k < length (sessions ?r)
          \<and> enqueued ?C (map session_id (take k (sessions ?r))) (queue_state fresh) = Some q
          \<and> QueueManager_enqueue_session_analysis ?C (session_id (sessions ?r ! k)) q
              = (Inl (PyException Is_Exception ''queue full''), q'))"
    by blast
  from ingest_exception_is_500 [OF key this] show ?thesis by simp
qed

text \<open>
  Claim C5. When \<open>store_sessions\<close> returns and the enqueue call for the session at
  position \<open>k\<close> raises, after the calls for the sessions before it have returned: the
  store is left in the state in which \<open>store_sessions\<close> left it and is not called
  again (nothing is rolled back), the enqueue calls for the sessions before position
  \<open>k\<close> have been issued and have returned, the call at position \<open>k\<close> is the last
  entry of the record, so that no enqueue call follows for a later session and none has
  completed for position \<open>k\<close> or after it, and the request fails with status 500 (when
  the exception is an instance of \<open>Exception\<close>; any other exception leaves the handler,
  with the same states and the same record).
\<close>

theorem ingest_enqueue_raises_partway:
  assumes "verify_api_key authorization = Inr api_key"
    and "SessionStore_store_sessions C (sessions request) api_key (store_state s) = (Inr (), st')"
    and "k < length (sessions request)"
    and "enqueued C (map session_id (take k (sessions request))) (queue_state s) = Some q"
    and "QueueManager_enqueue_session_analysis C (session_id (sessions request ! k)) q
           = (Inl e, q')"
  shows "post_v1_sessions_ingest C (Some authorization) request s =
           (if isinstance_Exception e then Http_error 500 (py_str e) else No_response e,
            \<lparr>store_state = st', queue_state = q',
             log = log s
               @ completed (Store_sessions (sessions request) api_key
                   # map (\<lambda>x. Enqueue_session_analysis (session_id x))
                       (take k (sessions request)))
               @ [Call (Enqueue_session_analysis (session_id (sessions request ! k))),
                  Raised (Enqueue_session_analysis (session_id (sessions request ! k))) e]\<rparr>)"
  using assms(1) ingest_sessions_raises [OF try_enqueue_raises [OF assms(2-5)]]
  by (simp add: post_v1_sessions_ingest_def depends_ok)

theorem ingest_enqueue_raises_partway_witness:
  "post_v1_sessions_ingest (memory_components False [''s2''])
      (Some ''Bearer sk_live_0123456789'')
      \<lparr>sessions = [a_session ''s1'' ''bot'', a_session ''s2'' ''bot'', a_session ''s3'' ''bot''],
       timestamp = 7\<rparr> fresh
    = (Http_error 500 ''queue full'',
       \<lparr>store_state = [a_session ''s1'' ''bot'', a_session ''s2'' ''bot'', a_session ''s3'' ''bot''],
        queue_state = [''s1''],
        log = [Call (Store_sessions
                 [a_session ''s1'' ''bot'', a_session ''s2'' ''bot'', a_session ''s3'' ''bot'']
                 ''sk_live_0123456789''),
               Returned (Store_sessions
                 [a_session ''s1'' ''bot'', a_session ''s2'' ''bot'', a_session ''s3'' ''bot'']
                 ''sk_live_0123456789''),
               Call (Enqueue_session_analysis ''s1''),
               Returned (Enqueue_session_analysis ''s1''),
               Call (Enqueue_session_analysis ''s2''),
               Raised (Enqueue_session_analysis ''s2'') (PyException Is_Exception ''queue full'')]\<rparr>)"
  using ingest_enqueue_raises_partway [of "''Bearer sk_live_0123456789''" "''sk_live_0123456789''"
      "memory_components False [''s2'']"
      "\<lparr>sessions = [a_session ''s1'' ''bot'', a_session ''s2'' ''bot'', a_session ''s3'' ''bot''],
        timestamp = 7\<rparr>"
      fresh "[a_session ''s1'' ''bot'', a_session ''s2'' ''bot'', a_session ''s3'' ''bot'']"
      1 "[''s1'']" "PyException Is_Exception ''queue full''" "[''s1'']"]
  by (simp add: verify_api_key_def memory_components_def fresh_def a_session_def completed_def)

text \<open>
  A well-formed batch of two sessions with a credential that passes the check does not
  lead to two store calls: the handler calls \<open>store_sessions\<close> once, with the whole
  batch. Nor is the answer a success whenever the batch and the credential are in order:
  when the store raises, the answer has status 500.
\<close>

theorem ingest_two_sessions_store_calls_counterexample:
  "length (filter is_store_call (log (snd
      (post_v1_sessions_ingest (memory_components False [])
         (Some ''Bearer sk_live_0123456789'')
         \<lparr>sessions = [a_session ''s1'' ''bot'', a_session ''s2'' ''bot''], timestamp = 7\<rparr>
         fresh)))) = 1
   \<and> response_status (fst
      (post_v1_sessions_ingest (memory_components True [])
         (Some ''Bearer sk_live_0123456789'')
         \<lparr>sessions = [a_session ''s1'' ''bot'', a_session ''s2'' ''bot''], timestamp = 7\<rparr>
         fresh)) = Some 500"
  by (simp add: post_v1_sessions_ingest_def depends_verify_api_key_def verify_api_key_def
      ingest_sessions_def ingest_sessions_try_def await_store_def await_queue_def
      memory_components_def fresh_def a_session_def Let_def)

text \<open>
  Claim C1, amended. For every POST to \<open>/v1/sessions/ingest\<close> whose body is a batch
  of 2 sessions and whose credential passes the check, when the store call and both
  enqueue calls return: the endpoint returns \<open>success = true\<close> and
  \<open>sessions_received = 2\<close>, and the handler makes exactly 1 \<open>store_sessions\<close> call,
  which carries both sessions in batch order and returns before the first enqueue call,
  and exactly 2 enqueue calls, one per session id, in the order of the batch.
\<close>

theorem ingest_two_sessions:
  assumes "verify_api_key authorization = Inr api_key"
    and "sessions request = [x, y]"
    and "SessionStore_store_sessions C [x, y] api_key (store_state s) = (Inr (), st')"
    and "enqueued C [session_id x, session_id y] (queue_state s) = Some q"
  shows "post_v1_sessions_ingest C (Some authorization) request s =
           (Json_response \<lparr>success = True, sessions_received = 2,
                           message = ''Successfully received 2 session(s)''\<rparr>,
            \<lparr>store_state = st', queue_state = q,
             log = log s @
               [Call (Store_sessions [x, y] api_key), Returned (Store_sessions [x, y] api_key),
                Call (Enqueue_session_analysis (session_id x)),
                Returned (Enqueue_session_analysis (session_id x)),
                Call (Enqueue_session_analysis (session_id y)),
                Returned (Enqueue_session_analysis (session_id y))]\<rparr>)
    \<and> length (filter is_store_call (drop (length (log s))
          (log (snd (post_v1_sessions_ingest C (Some authorization) request s))))) = 1
    \<and> length (filter is_enqueue_call (drop (length (log s))
          (log (snd (post_v1_sessions_ingest C (Some authorization) request s))))) = 2"
proof -
  from assms(2-4) have
    "SessionStore_store_sessions C (sessions request) api_key (store_state s) = (Inr (), st')"
    and "enqueued C (map session_id (sessions request)) (queue_state s) = Some q"
    by simp_all
  from try_returns [OF this] assms(1,2)
  have "post_v1_sessions_ingest C (Some authorization) request s =
           (Json_response \<lparr>success = True, sessions_received = 2,
                           message = ''Successfully received 2 session(s)''\<rparr>,
            \<lparr>store_state = st', queue_state = q,
             log = log s @
               [Call (Store_sessions [x, y] api_key), Returned (Store_sessions [x, y] api_key),
                Call (Enqueue_session_analysis (session_id x)),
                Returned (Enqueue_session_analysis (session_id x)),
                Call (Enqueue_session_analysis (session_id y)),
                Returned (Enqueue_session_analysis (session_id y))]\<rparr>)"
    by (simp add: post_v1_sessions_ingest_def depends_ok ingest_sessions_def completed_def
        str_nat_two)
  then show ?thesis by simp
qed

theorem ingest_two_sessions_witness:
  "post_v1_sessions_ingest (memory_components False [])
      (Some ''Bearer sk_live_0123456789'')
      \<lparr>sessions = [a_session ''s1'' ''bot'', a_session ''s2'' ''bot''], timestamp = 7\<rparr> fresh
    = (Json_response \<lparr>success = True, sessions_received = 2,
                      message = ''Successfully received 2 session(s)''\<rparr>,
       \<lparr>store_state = [a_session ''s1'' ''bot'', a_session ''s2'' ''bot''],
        queue_state = [''s1'', ''s2''],
        log = [Call (Store_sessions [a_session ''s1'' ''bot'', a_session ''s2'' ''bot'']
                 ''sk_live_0123456789''),
               Returned (Store_sessions [a_session ''s1'' ''bot'', a_session ''s2'' ''bot'']
                 ''sk_live_0123456789''),
               Call (Enqueue_session_analysis ''s1''),
               Returned (Enqueue_session_analysis ''s1''),
               Call (Enqueue_session_analysis ''s2''),
               Returned (Enqueue_session_analysis ''s2'')]\<rparr>)"
  using ingest_two_sessions [of "''Bearer sk_live_0123456789''" "''sk_live_0123456789''"
      "\<lparr>sessions = [a_session ''s1'' ''bot'', a_session ''s2'' ''bot''], timestamp = 7\<rparr>"
      "a_session ''s1'' ''bot''" "a_session ''s2'' ''bot''"
      "memory_components False []" fresh
      "[a_session ''s1'' ''bot'', a_session ''s2'' ''bot'']" "[''s1'', ''s2'']"]
  by (simp add: verify_api_key_def memory_components_def fresh_def a_session_def)

text \<open>
  A request whose list of sessions is empty is accepted as a batch: with a credential
  that passes the check it is answered with \<open>success = true\<close> and
  \<open>sessions_received = 0\<close>.
\<close>

theorem ingest_empty_batch_counterexample:
  "fst (post_v1_sessions_ingest (memory_components False [])
      (Some ''Bearer sk_live_0123456789'') \<lparr>sessions = [], timestamp = 7\<rparr> fresh)
    = Json_response \<lparr>success = True, sessions_received = 0,
                     message = ''Successfully received 0 session(s)''\<rparr>"
  by (simp add: post_v1_sessions_ingest_def depends_verify_api_key_def verify_api_key_def
      ingest_sessions_def ingest_sessions_try_def await_store_def
      memory_components_def fresh_def Let_def str_nat_0)

text \<open>
  Claim C7, amended. The ingest endpoint accepts every batch whose \<open>sessions\<close> field
  is a list of AgentSession, the empty list included: for an empty list, when the store
  call returns, the handler calls \<open>store_sessions\<close> once with the empty list, makes no
  enqueue call, and returns \<open>success = true\<close> with \<open>sessions_received = 0\<close>.
\<close>

theorem ingest_empty_batch:
  assumes "verify_api_key authorization = Inr api_key"
    and "sessions request = []"
    and "SessionStore_store_sessions C [] api_key (store_state s) = (Inr (), st')"
  shows "post_v1_sessions_ingest C (Some authorization) request s =
           (Json_response \<lparr>success = True, sessions_received = 0,
                           message = ''Successfully received 0 session(s)''\<rparr>,
            \<lparr>store_state = st', queue_state = queue_state s,
             log = log s @
               [Call (Store_sessions [] api_key), Returned (Store_sessions [] api_key)]\<rparr>)"
proof -
  from assms(2,3) have
    "SessionStore_store_sessions C (sessions request) api_key (store_state s) = (Inr (), st')"
    and "enqueued C (map session_id (sessions request)) (queue_state s) = Some (queue_state s)"
    by simp_all
  from try_returns [OF this] assms(1,2) show ?thesis
    by (simp add: post_v1_sessions_ingest_def depends_ok ingest_sessions_def completed_def
        str_nat_0)
qed

theorem ingest_empty_batch_witness:
  "post_v1_sessions_ingest (memory_components False [])
      (Some ''Bearer sk_live_0123456789'') \<lparr>sessions = [], timestamp = 7\<rparr> fresh
    = (Json_response \<lparr>success = True, sessions_received = 0,
                      message = ''Successfully received 0 session(s)''\<rparr>,
       \<lparr>store_state = [], queue_state = [],
        log = [Call (Store_sessions [] ''sk_live_0123456789''),
               Returned (Store_sessions [] ''sk_live_0123456789'')]\<rparr>)"
  using ingest_empty_batch [of "''Bearer sk_live_0123456789''" "''sk_live_0123456789''"
      "\<lparr>sessions = [], timestamp = 7\<rparr>" "memory_components False []" fresh "[]"]
  by (simp add: verify_api_key_def memory_components_def fresh_def)

subsection \<open>Read endpoints\<close>

text \<open>
  The store can return a value that is not \<open>None\<close> and yet false: for the empty
  dictionary that the store below holds under the id \<open>s0\<close>, the request fails with
  status 404 although the store did not return \<open>None\<close>.
\<close>

theorem get_session_404_iff_counterexample:
  "fst (SessionStore_get_session dict_components ''s0'' [(''s0'', [])]) = Inr (Some [])
   \<and> fst (get_v1_sessions dict_components (Some ''Bearer sk_live_0123456789'') ''s0''
        \<lparr>store_state = [(''s0'', [])], queue_state = [], log = []\<rparr>)
      = Http_error 404 ''Session not found''"
  by (simp add: get_v1_sessions_def depends_verify_api_key_def verify_api_key_def
      get_session_def await_store_def py_not_def dict_components_def)

text \<open>
  Claim C6, amended. For every session id, the handler of an authenticated GET of
  \<open>/v1/sessions/{session_id}\<close> raises its 404 (``Session not found'') exactly when the
  store's \<open>get_session\<close> returns a value that Python takes as false: \<open>None\<close>, or an
  object whose \<open>bool\<close> is false, such as an empty dictionary. When the store returns a
  true value, the response is that value, unchanged. An exception that the store raises
  is not caught by the handler. In each case the store is called once and the state of
  the store is the one this call left.
\<close>

theorem get_session_404_iff:
  assumes "verify_api_key authorization = Inr api_key"
  shows "(fst (get_session C sid api_key s) = Raise_http (HTTPException 404 ''Session not found'')
            \<longleftrightarrow> (\<exists>v. fst (SessionStore_get_session C sid (store_state s)) = Inr v
                    \<and> (v = None \<or> (\<exists>x. v = Some x \<and> \<not> py_bool C x))))
    \<and> (\<forall>v st'. SessionStore_get_session C sid (store_state s) = (Inr v, st')
            \<and> (v = None \<or> (\<exists>x. v = Some x \<and> \<not> py_bool C x)) \<longrightarrow>
          get_v1_sessions C (Some authorization) sid s
            = (Http_error 404 ''Session not found'',
               s\<lparr>store_state := st',
                 log := log s @ [Call (Get_session sid), Returned (Get_session sid)]\<rparr>))
    \<and> (\<forall>x st'. SessionStore_get_session C sid (store_state s) = (Inr (Some x), st')
            \<and> py_bool C x \<longrightarrow>
          get_v1_sessions C (Some authorization) sid s
            = (Json_response (Some x),
               s\<lparr>store_state := st',
                 log := log s @ [Call (Get_session sid), Returned (Get_session sid)]\<rparr>))
    \<and> (\<forall>e st'. SessionStore_get_session C sid (store_state s) = (Inl e, st') \<longrightarrow>
          get_session C sid api_key s
            = (Raise e,
               s\<lparr>store_state := st',
                 log := log s @ [Call (Get_session sid), Raised (Get_session sid) e]\<rparr>))"
proof (cases "SessionStore_get_session C sid (store_state s)")
  case (Pair res st')
  show ?thesis
  proof (cases res)
    case (Inl e)
    with Pair assms show ?thesis
      by (simp add: get_v1_sessions_def depends_ok get_session_def await_store_def)
  next
    case (Inr v)
    with Pair assms show ?thesis
      by (cases v)
        (auto simp: get_v1_sessions_def depends_ok get_session_def await_store_def py_not_def)
  qed
qed

theorem get_session_404_iff_witness:
  "get_v1_sessions (memory_components False [])
      (Some ''Bearer sk_live_0123456789'') ''s9''
      (fresh\<lparr>store_state := [a_session ''s1'' ''bot'']\<rparr>)
     = (Http_error 404 ''Session not found'',
        \<lparr>store_state = [a_session ''s1'' ''bot''], queue_state = [],
         log = [Call (Get_session ''s9''), Returned (Get_session ''s9'')]\<rparr>)
   \<and> get_v1_sessions (memory_components False [])
      (Some ''Bearer sk_live_0123456789'') ''s1''
      (fresh\<lparr>store_state := [a_session ''s1'' ''bot'']\<rparr>)
     = (Json_response (Some (a_session ''s1'' ''bot'')),
        \<lparr>store_state = [a_session ''s1'' ''bot''], queue_state = [],
         log = [Call (Get_session ''s1''), Returned (Get_session ''s1'')]\<rparr>)
   \<and> get_v1_sessions dict_components
      (Some ''Bearer sk_live_0123456789'') ''s0''
      \<lparr>store_state = [(''s0'', [])], queue_state = [], log = []\<rparr>
     = (Http_error 404 ''Session not found'',
        \<lparr>store_state = [(''s0'', [])], queue_state = [],
         log = [Call (Get_session ''s0''), Returned (Get_session ''s0'')]\<rparr>)"
proof -
  have key: "verify_api_key ''Bearer sk_live_0123456789'' = Inr ''sk_live_0123456789''"
    by (simp add: verify_api_key_def)
  show ?thesis
    using get_session_404_iff [OF key, of "memory_components False []" "''s9''"
        "fresh\<lparr>store_state := [a_session ''s1'' ''bot'']\<rparr>"]
      get_session_404_iff [OF key, of "memory_components False []" "''s1''"
        "fresh\<lparr>store_state := [a_session ''s1'' ''bot'']\<rparr>"]
      get_session_404_iff [OF key, of dict_components "''s0''"
        "\<lparr>store_state = [(''s0'', [])], queue_state = [], log = []\<rparr>"]
    by (simp add: memory_components_def dict_components_def fresh_def a_session_def)
qed

text \<open>
  Claim C8. For every authenticated GET of \<open>/v1/agents/{agent_name}/sessions\<close>: an
  omitted \<open>limit\<close> is 100 and an omitted \<open>offset\<close> is 0; the limit and the offset of
  the caller, whatever integers they are, go to the store's \<open>list_sessions\<close> as they
  are (the store is called once, with exactly these arguments); and when the store
  returns a list, the response holds the agent name of the request, that list, its
  length as \<open>count\<close>, and the limit and the offset.
\<close>

theorem list_agent_sessions_page:
  assumes "verify_api_key authorization = Inr api_key"
    and "limit = (case limit_param of None \<Rightarrow> 100 | Some l \<Rightarrow> l)"
    and "offset = (case offset_param of None \<Rightarrow> 0 | Some off \<Rightarrow> off)"
    and "SessionStore_list_sessions C name limit offset (store_state s) = (Inr found, st')"
  shows "get_v1_agents_sessions C (Some authorization) name limit_param offset_param s =
           (Json_response \<lparr>page_agent_name = name, page_sessions = found,
                           page_count = int (length found),
                           page_limit = limit, page_offset = offset\<rparr>,
            s\<lparr>store_state := st',
              log := log s @ [Call (List_sessions name limit offset),
                              Returned (List_sessions name limit offset)]\<rparr>)"
  using assms
  by (simp add: get_v1_agents_sessions_def depends_ok list_agent_sessions_def await_store_def
      Let_def)

theorem list_agent_sessions_page_witness:
  "get_v1_agents_sessions (memory_components False []) (Some ''Bearer sk_live_0123456789'')
      ''bot'' None None
      (fresh\<lparr>store_state := [a_session ''s1'' ''bot'', a_session ''s2'' ''cat'',
                               a_session ''s3'' ''bot'']\<rparr>)
    = (Json_response \<lparr>page_agent_name = ''bot'',
                      page_sessions = [a_session ''s1'' ''bot'', a_session ''s3'' ''bot''],
                      page_count = 2, page_limit = 100, page_offset = 0\<rparr>,
       \<lparr>store_state = [a_session ''s1'' ''bot'', a_session ''s2'' ''cat'',
                       a_session ''s3'' ''bot''],
        queue_state = [],
        log = [Call (List_sessions ''bot'' 100 0), Returned (List_sessions ''bot'' 100 0)]\<rparr>)
   \<and> fst (get_v1_agents_sessions (memory_components False [])
      (Some ''Bearer sk_live_0123456789'') ''bot'' (Some 1000000000) (Some 1)
      (fresh\<lparr>store_state := [a_session ''s1'' ''bot'', a_session ''s2'' ''cat'',
                               a_session ''s3'' ''bot'']\<rparr>))
    = Json_response \<lparr>page_agent_name = ''bot'',
                     page_sessions = [a_session ''s3'' ''bot''],
                     page_count = 1, page_limit = 1000000000, page_offset = 1\<rparr>"
proof -
  have key: "verify_api_key ''Bearer sk_live_0123456789'' = Inr ''sk_live_0123456789''"
    by (simp add: verify_api_key_def)
  let ?st = "[a_session ''s1'' ''bot'', a_session ''s2'' ''cat'', a_session ''s3'' ''bot'']"
  have a: "SessionStore_list_sessions (memory_components False []) ''bot'' 100 0
      (store_state (fresh\<lparr>store_state := ?st\<rparr>))
      = (Inr [a_session ''s1'' ''bot'', a_session ''s3'' ''bot''], ?st)"
    by (simp add: memory_components_def a_session_def)
  have b: "SessionStore_list_sessions (memory_components False []) ''bot'' 1000000000 1
      (store_state (fresh\<lparr>store_state := ?st\<rparr>))
      = (Inr [a_session ''s3'' ''bot''], ?st)"
    by (simp add: memory_components_def a_session_def)
  show ?thesis
    using list_agent_sessions_page [OF key, of 100 None 0 None, OF _ _ a]
      list_agent_sessions_page [OF key, of 1000000000 "Some 1000000000" 1 "Some 1", OF _ _ b]
    by (simp add: fresh_def)
qed

subsection \<open>Start-up and shutdown\<close>

text \<open>
  Every step of a handler only adds to the record of calls, and no handler calls the
  store's \<open>close\<close>.
\<close>

lemma await_store_log:
  "\<exists>es. log (snd (await_store c m s)) = log s @ es
     \<and> (c \<noteq> Close \<longrightarrow> Call Close \<notin> set es)"
  by (cases "m (store_state s)") (auto simp: await_store_def split: sum.splits)

lemma await_queue_log:
  "\<exists>es. log (snd (await_queue c m s)) = log s @ es
     \<and> (c \<noteq> Close \<longrightarrow> Call Close \<notin> set es)"
  by (cases "m (queue_state s)") (auto simp: await_queue_def split: sum.splits)

lemma enqueue_loop_log:
  "\<exists>es. log (snd (enqueue_loop C batch s)) = log s @ es \<and> Call Close \<notin> set es"
proof (induction batch arbitrary: s)
  case Nil
  show ?case by simp
next
  case (Cons x xs)
  let ?c = "Enqueue_session_analysis (session_id x)"
  let ?m = "QueueManager_enqueue_session_analysis C (session_id x)"
  obtain res s1 where step: "await_queue ?c ?m s = (res, s1)"
    by (cases "await_queue ?c ?m s")
  from await_queue_log [of ?c ?m s] step obtain es1
    where es1: "log s1 = log s @ es1" "Call Close \<notin> set es1"
    by auto
  show ?case
  proof (cases res)
    case (Inl e)
    with step es1 show ?thesis by simp
  next
    case (Inr u)
    from Cons.IH [of s1] obtain es2
      where "log (snd (enqueue_loop C xs s1)) = log s1 @ es2" "Call Close \<notin> set es2"
      by blast
    with Inr step es1 show ?thesis by simp
  qed
qed

lemma ingest_sessions_log:
  "\<exists>es. log (snd (ingest_sessions C request key s)) = log s @ es \<and> Call Close \<notin> set es"
proof -
  let ?c = "Store_sessions (sessions request) key"
  let ?m = "SessionStore_store_sessions C (sessions request) key"
  obtain res s1 where step: "await_store ?c ?m s = (res, s1)"
    by (cases "await_store ?c ?m s")
  from await_store_log [of ?c ?m s] step obtain es1
    where es1: "log s1 = log s @ es1" "Call Close \<notin> set es1"
    by auto
  show ?thesis
  proof (cases res)
    case (Inl e)
    with step es1 show ?thesis
      by (simp add: ingest_sessions_def ingest_sessions_try_def Let_def)
  next
    case (Inr u)
    obtain res2 s2 where loop: "enqueue_loop C (sessions request) s1 = (res2, s2)"
      by (cases "enqueue_loop C (sessions request) s1")
    from enqueue_loop_log [of C "sessions request" s1] loop obtain es2
      where "log s2 = log s1 @ es2" "Call Close \<notin> set es2"
      by auto
    with Inr step es1 loop show ?thesis
      by (cases res2) (simp_all add: ingest_sessions_def ingest_sessions_try_def Let_def)
  qed
qed

lemma get_session_log:
  fixes s :: "('st, 'q, 'p) sys"
  shows "\<exists>es. log (snd (get_session C sid key s)) = log s @ es \<and> Call Close \<notin> set es"
proof -
  let ?c = "Get_session sid :: 'p call"
  let ?m = "SessionStore_get_session C sid"
  obtain res s1 where step: "await_store ?c ?m s = (res, s1)"
    by (cases "await_store ?c ?m s")
  from await_store_log [of ?c ?m s] step obtain es1
    where "log s1 = log s @ es1" "Call Close \<notin> set es1"
    by auto
  with step show ?thesis
    by (cases res) (simp_all add: get_session_def)
qed

lemma list_agent_sessions_log:
  fixes s :: "('st, 'q, 'p) sys"
  shows "\<exists>es. log (snd (list_agent_sessions C name limit offset key s)) = log s @ es
     \<and> Call Close \<notin> set es"
proof -
  let ?c = "List_sessions name limit offset :: 'p call"
  let ?m = "SessionStore_list_sessions C name limit offset"
  obtain res s1 where step: "await_store ?c ?m s = (res, s1)"
    by (cases "await_store ?c ?m s")
  from await_store_log [of ?c ?m s] step obtain es1
    where "log s1 = log s @ es1" "Call Close \<notin> set es1"
    by auto
  with step show ?thesis
    by (cases res) (simp_all add: list_agent_sessions_def)
qed

lemma serve_log:
  "\<exists>es. log (serve C req s) = log s @ es \<and> Call Close \<notin> set es"
proof (cases req)
  case (Post_ingest header request)
  show ?thesis
  proof (cases "depends_verify_api_key header :: ingest_response response + string")
    case (Inl r)
    with Post_ingest show ?thesis by (simp add: post_v1_sessions_ingest_def)
  next
    case (Inr key)
    with Post_ingest ingest_sessions_log [of C request key s] show ?thesis
      by (cases "ingest_sessions C request key s") (simp add: post_v1_sessions_ingest_def)
  qed
next
  case (Get_session_by_id header sid)
  show ?thesis
  proof (cases "depends_verify_api_key header :: 'd option response + string")
    case (Inl r)
    with Get_session_by_id show ?thesis by (simp add: get_v1_sessions_def)
  next
    case (Inr key)
    with Get_session_by_id get_session_log [of C sid key s] show ?thesis
      by (cases "get_session C sid key s") (simp add: get_v1_sessions_def)
  qed
next
  case (Get_agent_sessions header name lp op)
  show ?thesis
  proof (cases "depends_verify_api_key header :: 'd agent_sessions_page response + string")
    case (Inl r)
    with Get_agent_sessions show ?thesis by (simp add: get_v1_agents_sessions_def)
  next
    case (Inr key)
    with Get_agent_sessions
      list_agent_sessions_log [of C name "case lp of None \<Rightarrow> 100 | Some l \<Rightarrow> l"
        "case op of None \<Rightarrow> 0 | Some off \<Rightarrow> off" key s]
    show ?thesis
      by (cases "list_agent_sessions C name (case lp of None \<Rightarrow> 100 | Some l \<Rightarrow> l)
            (case op of None \<Rightarrow> 0 | Some off \<Rightarrow> off) key s")
        (simp add: get_v1_agents_sessions_def)
  qed
qed

lemma run_handlers_startup: "run_handlers C ''startup'' s = startup_event s"
  by (simp add: run_handlers_def on_event_def)

lemma run_handlers_shutdown: "run_handlers C ''shutdown'' s = snd (shutdown_event C s)"
  by (simp add: run_handlers_def on_event_def)

lemma shutdown_stop_raises:
  "QueueManager_stop_workers C (queue_state s) = (Inl e, q') \<Longrightarrow>
   shutdown_event C s =
     (Inl e, s\<lparr>queue_state := q',
               log := log s @ [Call Stop_workers, Raised Stop_workers e]\<rparr>)"
  by (simp add: shutdown_event_def await_queue_def)

lemma shutdown_returns:
  "QueueManager_stop_workers C (queue_state s) = (Inr (), q') \<Longrightarrow>
   SessionStore_close C (store_state s) = (Inr (), st') \<Longrightarrow>
   shutdown_event C s =
     (Inr (), \<lparr>store_state = st', queue_state = q',
               log = log s @ [Call Stop_workers, Returned Stop_workers,
                              Call Close, Returned Close]\<rparr>)"
  by (simp add: shutdown_event_def await_queue_def await_store_def)

lemma shutdown_close_raises:
  "QueueManager_stop_workers C (queue_state s) = (Inr (), q') \<Longrightarrow>
   SessionStore_close C (store_state s) = (Inl e, st') \<Longrightarrow>
   shutdown_event C s =
     (Inl e, \<lparr>store_state = st', queue_state = q',
              log = log s @ [Call Stop_workers, Returned Stop_workers,
                             Call Close, Raised Close e]\<rparr>)"
  by (simp add: shutdown_event_def await_queue_def await_store_def)

lemma shutdown_event_log:
  "\<exists>es. log (snd (shutdown_event C s)) = log s @ Call Stop_workers # es
     \<and> precedes (\<lambda>e. e = Returned Stop_workers) (\<lambda>e. e = Call Close) es"
proof (cases "QueueManager_stop_workers C (queue_state s)")
  case (Pair res q')
  show ?thesis
  proof (cases res)
    case (Inl e)
    with Pair show ?thesis by (simp add: shutdown_stop_raises)
  next
    case (Inr u)
    with Pair show ?thesis
      by (cases "SessionStore_close C (store_state s)")
        (auto simp: shutdown_event_def await_queue_def await_store_def split: sum.splits)
  qed
qed

lemma precedes_append:
  "\<forall>e\<in>set xs. \<not> b e \<Longrightarrow> precedes a b ys \<Longrightarrow> precedes a b (xs @ ys)"
  by (induction xs) auto

text \<open>
  The invariant of the process: before the start-up hook nothing has been called; while
  the process serves, the record begins with the launch of the workers and holds no call
  of \<open>close\<close>; after shutdown, \<open>close\<close> is not called until \<open>stop_workers\<close> has been
  called and has returned.
\<close>

lemma reachable_log:
  assumes "reachable C x"
  shows "(fst x = Starting \<longrightarrow> log (snd x) = [])
    \<and> (fst x = Serving \<longrightarrow>
         (\<exists>rest. log (snd x)
            = Call Create_task_start_workers # Returned Create_task_start_workers # rest)
         \<and> Call Close \<notin> set (log (snd x)))
    \<and> (fst x = Stopped \<longrightarrow>
         (\<exists>rest. log (snd x)
            = Call Create_task_start_workers # Returned Create_task_start_workers # rest)
         \<and> precedes (\<lambda>e. e = Call Stop_workers) (\<lambda>e. e = Call Close) (log (snd x))
         \<and> precedes (\<lambda>e. e = Returned Stop_workers) (\<lambda>e. e = Call Close) (log (snd x)))"
  using assms
proof (induction rule: reachable.induct)
  case (init s)
  then show ?case by simp
next
  case (step x y)
  from step.hyps(2) show ?case
  proof (cases rule: process_step.cases)
    case (startup s)
    with step.IH show ?thesis by (simp add: run_handlers_startup startup_event_def)
  next
    case (request s req)
    let ?s' = "s\<lparr>log := log s @ [Accept_request]\<rparr>"
    from serve_log [of C req ?s'] obtain es
      where es: "log (serve C req ?s') = log ?s' @ es" "Call Close \<notin> set es"
      by blast
    with request step.IH show ?thesis by auto
  next
    case (shutdown s)
    from shutdown_event_log [of C s] obtain es
      where es: "log (snd (shutdown_event C s)) = log s @ Call Stop_workers # es"
        and after: "precedes (\<lambda>e. e = Returned Stop_workers) (\<lambda>e. e = Call Close) es"
      by blast
    from shutdown step.IH have no_close: "\<forall>e\<in>set (log s). \<not> e = Call Close"
      by auto
    then have "precedes (\<lambda>e. e = Call Stop_workers) (\<lambda>e. e = Call Close)
        (log s @ Call Stop_workers # es)"
      by (rule precedes_append) simp
    moreover from no_close have "precedes (\<lambda>e. e = Returned Stop_workers) (\<lambda>e. e = Call Close)
        (log s @ Call Stop_workers # es)"
      by (rule precedes_append) (simp add: after)
    ultimately show ?thesis
      using shutdown step.IH es by (auto simp: run_handlers_shutdown)
  qed
qed

text \<open>
  Claim C9. The shutdown hook calls the queue manager's \<open>stop_workers\<close> first and the
  store's \<open>close\<close> only once \<open>stop_workers\<close> has returned: when both return, the queue
  is left as \<open>stop_workers\<close> left it and the store as \<open>close\<close> left it, and the record
  grows by exactly these two calls in this order; when \<open>stop_workers\<close> raises, \<open>close\<close>
  is not called and the store is untouched. The start-up hook launches the worker loop
  as a background task and touches nothing else. With the hooks registered as the module
  registers them, in every state the process can reach: nothing is called before the
  start-up hook; from then on the record of calls begins with the launch of the worker
  loop, so the launch has returned before the first request is accepted; and the store's
  \<open>close\<close> is never called until \<open>stop_workers\<close> has been called and has returned.
\<close>

theorem lifecycle_order:
  assumes "reachable C (ph, s)"
  shows "(ph = Starting \<longrightarrow> log s = [])
    \<and> (ph \<noteq> Starting \<longrightarrow>
         (\<exists>rest. log s
            = Call Create_task_start_workers # Returned Create_task_start_workers # rest))
    \<and> precedes (\<lambda>e. e = Returned Create_task_start_workers) (\<lambda>e. e = Accept_request) (log s)
    \<and> precedes (\<lambda>e. e = Call Stop_workers) (\<lambda>e. e = Call Close) (log s)
    \<and> precedes (\<lambda>e. e = Returned Stop_workers) (\<lambda>e. e = Call Close) (log s)
    \<and> run_handlers C ''startup'' s =
         s\<lparr>log := log s @ [Call Create_task_start_workers,
                             Returned Create_task_start_workers]\<rparr>
    \<and> run_handlers C ''shutdown'' s = snd (shutdown_event C s)
    \<and> (\<forall>q' st'. QueueManager_stop_workers C (queue_state s) = (Inr (), q')
            \<and> SessionStore_close C (store_state s) = (Inr (), st') \<longrightarrow>
          shutdown_event C s =
            (Inr (), \<lparr>store_state = st', queue_state = q',
                      log = log s @ [Call Stop_workers, Returned Stop_workers,
                                     Call Close, Returned Close]\<rparr>))
    \<and> (\<forall>q' e st'. QueueManager_stop_workers C (queue_state s) = (Inr (), q')
            \<and> SessionStore_close C (store_state s) = (Inl e, st') \<longrightarrow>
          shutdown_event C s =
            (Inl e, \<lparr>store_state = st', queue_state = q',
                     log = log s @ [Call Stop_workers, Returned Stop_workers,
                                    Call Close, Raised Close e]\<rparr>))
    \<and> (\<forall>e q'. QueueManager_stop_workers C (queue_state s) = (Inl e, q') \<longrightarrow>
          shutdown_event C s =
            (Inl e, \<lparr>store_state = store_state s, queue_state = q',
                     log = log s @ [Call Stop_workers, Raised Stop_workers e]\<rparr>))"
proof -
  note inv = reachable_log [OF assms]
  have a: "ph = Starting \<longrightarrow> log s = []"
    using inv by simp
  have b: "ph \<noteq> Starting \<longrightarrow>
         (\<exists>rest. log s
            = Call Create_task_start_workers # Returned Create_task_start_workers # rest)"
    using inv by (cases ph) auto
  have c: "precedes (\<lambda>e. e = Returned Create_task_start_workers) (\<lambda>e. e = Accept_request)
      (log s)"
    using a b by (cases ph) auto
  have d: "precedes (\<lambda>e. e = Call Stop_workers) (\<lambda>e. e = Call Close) (log s)
      \<and> precedes (\<lambda>e. e = Returned Stop_workers) (\<lambda>e. e = Call Close) (log s)"
  proof (cases ph)
    case Starting
    with a show ?thesis by simp
  next
    case Serving
    with inv have "\<forall>e\<in>set (log s). \<not> e = Call Close" by auto
    from precedes_append [OF this, of "\<lambda>e. e = Call Stop_workers" "[]"]
      precedes_append [OF this, of "\<lambda>e. e = Returned Stop_workers" "[]"]
    show ?thesis by simp
  next
    case Stopped
    with inv show ?thesis by simp
  qed
  have e: "run_handlers C ''startup'' s =
         s\<lparr>log := log s @ [Call Create_task_start_workers,
                             Returned Create_task_start_workers]\<rparr>"
    by (simp add: run_handlers_startup startup_event_def)
  have f: "\<forall>e q'. QueueManager_stop_workers C (queue_state s) = (Inl e, q') \<longrightarrow>
          shutdown_event C s =
            (Inl e, \<lparr>store_state = store_state s, queue_state = q',
                     log = log s @ [Call Stop_workers, Raised Stop_workers e]\<rparr>)"
    by (simp add: shutdown_stop_raises)
  from a b c d e f show ?thesis
    by (simp add: run_handlers_shutdown shutdown_returns shutdown_close_raises)
qed

theorem lifecycle_order_witness:
  "shutdown_event (memory_components False [])
      (serve (memory_components False [])
         (Post_ingest (Some ''Bearer sk_live_0123456789'')
            \<lparr>sessions = [a_session ''s1'' ''bot''], timestamp = 7\<rparr>)
         ((run_handlers (memory_components False []) ''startup'' fresh)
            \<lparr>log := log (run_handlers (memory_components False []) ''startup'' fresh)
                      @ [Accept_request]\<rparr>))
    = (Inr (),
       \<lparr>store_state = [], queue_state = [],
        log = [Call Create_task_start_workers, Returned Create_task_start_workers,
               Accept_request,
               Call (Store_sessions [a_session ''s1'' ''bot''] ''sk_live_0123456789''),
               Returned (Store_sessions [a_session ''s1'' ''bot''] ''sk_live_0123456789''),
               Call (Enqueue_session_analysis ''s1''),
               Returned (Enqueue_session_analysis ''s1''),
               Call Stop_workers, Returned Stop_workers, Call Close, Returned Close]\<rparr>)
   \<and> store_state (serve (memory_components False [])
         (Post_ingest (Some ''Bearer sk_live_0123456789'')
            \<lparr>sessions = [a_session ''s1'' ''bot''], timestamp = 7\<rparr>)
         ((run_handlers (memory_components False []) ''startup'' fresh)
            \<lparr>log := log (run_handlers (memory_components False []) ''startup'' fresh)
                      @ [Accept_request]\<rparr>)) = [a_session ''s1'' ''bot'']
   \<and> queue_state (serve (memory_components False [])
         (Post_ingest (Some ''Bearer sk_live_0123456789'')
            \<lparr>sessions = [a_session ''s1'' ''bot''], timestamp = 7\<rparr>)
         ((run_handlers (memory_components False []) ''startup'' fresh)
            \<lparr>log := log (run_handlers (memory_components False []) ''startup'' fresh)
                      @ [Accept_request]\<rparr>)) = [''s1'']"
proof -
  let ?C = "memory_components False []"
  let ?s1 = "run_handlers ?C ''startup'' fresh"
  let ?s2 = "serve ?C (Post_ingest (Some ''Bearer sk_live_0123456789'')
      \<lparr>sessions = [a_session ''s1'' ''bot''], timestamp = 7\<rparr>)
      (?s1\<lparr>log := log ?s1 @ [Accept_request]\<rparr>)"
  have "log fresh = []"
    by (simp add: fresh_def)
  then have "reachable ?C (Starting, fresh)"
    by (rule reachable.init)
  then have "reachable ?C (Serving, ?s1)"
    by (rule reachable.step) (rule process_step.startup)
  then have "reachable ?C (Serving, ?s2)"
    by (rule reachable.step) (rule process_step.request)
  note facts = lifecycle_order [OF this]
  have s2: "?s2 =
     \<lparr>store_state = [a_session ''s1'' ''bot''], queue_state = [''s1''],
      log = [Call Create_task_start_workers, Returned Create_task_start_workers,
             Accept_request,
             Call (Store_sessions [a_session ''s1'' ''bot''] ''sk_live_0123456789''),
             Returned (Store_sessions [a_session ''s1'' ''bot''] ''sk_live_0123456789''),
             Call (Enqueue_session_analysis ''s1''),
             Returned (Enqueue_session_analysis ''s1'')]\<rparr>"
    by (simp add: run_handlers_def on_event_def startup_event_def
        post_v1_sessions_ingest_def depends_verify_api_key_def verify_api_key_def
        ingest_sessions_def ingest_sessions_try_def await_store_def await_queue_def
        memory_components_def fresh_def a_session_def Let_def)
  have stop: "QueueManager_stop_workers ?C (queue_state ?s2) = (Inr (), [])"
    and close: "SessionStore_close ?C (store_state ?s2) = (Inr (), [])"
    by (simp_all add: memory_components_def)
  from facts stop close have "shutdown_event ?C ?s2 =
      (Inr (), \<lparr>store_state = [], queue_state = [],
                log = log ?s2 @ [Call Stop_workers, Returned Stop_workers,
                                Call Close, Returned Close]\<rparr>)"
    by blast
  with s2 show ?thesis by simp
qed

end
